theory Spec2Isabelle
  imports Main
begin

section \<open>The generation session controller of \<open>frontend/app.js\<close>\<close>

text \<open>
  The theory embeds the session logic of the class \<open>CodeGeneratorApp\<close>: the fields of the
  object, the texts of three DOM elements (the prompt input, which the code reads back, the
  status line and the model name), the three \<open>localStorage\<close> keys, and the methods that
  start, stream, stop, persist, restore and health-check a generation.

  Conventions of the embedding.
  \<^item> A JavaScript string is a \<open>string\<close>; a character stands for one UTF-16 code unit in the
    range U+0000..U+00FF. \<open>null\<close>/\<open>undefined\<close> is \<open>None\<close>.
  \<^item> A number is a double that holds an integer, written as that \<open>int\<close>: \<open>tokenCount\<close>,
    the \<open>tokens\<close> of a \<open>progress\<close> message, \<open>Date.now()\<close> (passed in as \<open>now\<close>). Where
    the code adds to such a number, the rounding of the double is written out.
  \<^item> Every method is a function from the object's state to its new state. What an
    \<open>await\<close>ed \<open>fetch\<close> gives back is an argument of the function; unless a method is split
    at its \<open>await\<close>, it is run to its end with no other event in between.
  \<^item> Calls that leave the page (\<open>fetch\<close>, \<open>new WebSocket\<close>, \<open>ws.close()\<close>) and
    \<open>showToast\<close> are appended to the field \<open>trace\<close>, in call order.
  \<^item> Writes to the DOM that the code never reads back (HTML of the output pane, badges,
    button labels and disabled flags, loading animation, history list) are left out.
\<close>

subsection \<open>Strings\<close>

text \<open>The code units below U+0100 that \<open>String.prototype.trim\<close> strips: TAB, LF, VT, FF, CR,
  SPACE and NBSP.\<close>

definition isWhiteSpace :: "char \<Rightarrow> bool" where
  "isWhiteSpace c \<longleftrightarrow> c \<in> set [CHR 0x09, CHR 0x0A, CHR 0x0B, CHR 0x0C, CHR 0x0D, CHR 0x20, CHR 0xA0]"

definition trim :: "string \<Rightarrow> string" where
  "trim s = rev (dropWhile isWhiteSpace (rev (dropWhile isWhiteSpace s)))"

definition endsWith :: "string \<Rightarrow> string \<Rightarrow> bool" where
  "endsWith s t \<longleftrightarrow> length t \<le> length s \<and> drop (length s - length t) s = t"

text \<open>Truthiness of a value that is a string, \<open>null\<close> or \<open>undefined\<close>.\<close>

fun truthy :: "string option \<Rightarrow> bool" where
  "truthy None = False"
| "truthy (Some s) = (s \<noteq> [])"

subsection \<open>Data\<close>

datatype readyState = CONNECTING | OPEN | CLOSING | CLOSED

record websocket =
  ws_generationId :: "string option"
  ws_readyState :: readyState

text \<open>The object \<open>state\<close> that \<open>saveLastGeneration\<close> serialises under the key \<open>appState\<close>.\<close>

record snapshot =
  state_generationId :: "string option"
  state_prompt :: string
  state_outputBuffer :: string
  state_tokenCount :: int
  state_isGenerating :: bool
  state_timestamp :: int

text \<open>What \<open>localStorage.getItem('appState')\<close> holds when it is not \<open>null\<close>: text that
  \<open>JSON.parse\<close> rejects, or a parsed snapshot.\<close>

datatype stored = Corrupt | Parsed snapshot

text \<open>A generation object: the JSON of \<open>GET /history/{id}\<close>, and the literals the code
  builds itself (\<open>{ status: 'completed' }\<close>, \<open>stoppedGeneration\<close>, ...), whose missing
  fields are \<open>None\<close>.\<close>

record generation =
  gen_id :: "string option"
  gen_status :: string
  gen_output :: "string option"
  gen_prompt :: "string option"
  gen_error :: "string option"

text \<open>The messages of the WebSocket, by their \<open>type\<close>; \<open>Done\<close> carries \<open>language\<close> and
  \<open>filename\<close>, \<open>Other\<close> is any type the \<open>switch\<close> has no case for.\<close>

datatype message =
    Token string
  | Progress int
  | Status string
  | Done "string option" "string option"
  | Error string
  | Other

text \<open>A settled \<open>fetch\<close>: rejected (network error, timeout), or resolved with a response
  whose \<open>json()\<close> is \<open>None\<close> when the body does not parse.\<close>

record 'a response =
  ok :: bool
  status :: nat
  json :: "'a option"

datatype 'a fetched = Rejected | Resolved "'a response"

datatype request =
    PostGenerate string
  | PostStop string string
  | PostFail string string string
  | GetHealth
  | GetHistory
  | GetHistoryById string
  | GetModels
  | PostModelsSet string

datatype io =
    Fetch request
  | NewWebSocket "string option"
  | WsClose
  | Toast string string

record app =
  ws :: "websocket option"
  currentGenerationId :: "string option"
  isGenerating :: bool
  outputBuffer :: string
  tokenCount :: int
  promptInput :: string
  statusText :: string
  modelName :: string
  appState :: "stored option"
  lastGenerationId :: "string option"
  selectedModel :: "string option"
  trace :: "io list"

text \<open>The object after the field initialisers of the constructor, on a page whose storage
  holds the given three keys.\<close>

definition constructor :: "stored option \<Rightarrow> string option \<Rightarrow> string option \<Rightarrow> app" where
  "constructor saved legacy model =
     \<lparr> ws = None, currentGenerationId = None, isGenerating = False, outputBuffer = [],
       tokenCount = 0, promptInput = [], statusText = [], modelName = [],
       appState = saved, lastGenerationId = legacy, selectedModel = model, trace = [] \<rparr>"

subsection \<open>Small methods\<close>

definition setGeneratingState :: "bool \<Rightarrow> app \<Rightarrow> app" where
  "setGeneratingState generating s = s\<lparr>isGenerating := generating\<rparr>"

definition updateStatus :: "string \<Rightarrow> app \<Rightarrow> app" where
  "updateStatus st s = s\<lparr>statusText := st\<rparr>"

definition showToast :: "string \<Rightarrow> string \<Rightarrow> app \<Rightarrow> app" where
  "showToast msg type s = s\<lparr>trace := trace s @ [Toast msg type]\<rparr>"

definition fetch :: "request \<Rightarrow> app \<Rightarrow> app" where
  "fetch req s = s\<lparr>trace := trace s @ [Fetch req]\<rparr>"

text \<open>\<open>loadHistory\<close> is never awaited by the methods below; its request is all they see.\<close>

definition loadHistory :: "app \<Rightarrow> app" where
  "loadHistory s = fetch GetHistory s"

definition updateUIState :: "generation option \<Rightarrow> app \<Rightarrow> app" where
  "updateUIState g s =
     (case g of
        Some gen \<Rightarrow> (if truthy (gen_prompt gen) then s\<lparr>promptInput := the (gen_prompt gen)\<rparr> else s)
      | None \<Rightarrow> s\<lparr>promptInput := []\<rparr>)"

text \<open>\<open>renderOutput\<close>: outside a generation, a non-blank content becomes the buffer.\<close>

definition renderOutput :: "string \<Rightarrow> app \<Rightarrow> app" where
  "renderOutput content s =
     (if trim content = [] then s
      else if isGenerating s then s
      else s\<lparr>outputBuffer := content\<rparr>)"

definition saveLastGeneration :: "int \<Rightarrow> app \<Rightarrow> app" where
  "saveLastGeneration now s =
     s\<lparr>appState := Some (Parsed
        \<lparr> state_generationId = currentGenerationId s,
          state_prompt = promptInput s,
          state_outputBuffer = outputBuffer s,
          state_tokenCount = tokenCount s,
          state_isGenerating = isGenerating s,
          state_timestamp = now \<rparr>)\<rparr>"

definition clearSavedState :: "app \<Rightarrow> app" where
  "clearSavedState s = s\<lparr>appState := None, lastGenerationId := None\<rparr>"

definition getCurrentModel :: "app \<Rightarrow> string" where
  "getCurrentModel s = (if truthy (selectedModel s) then the (selectedModel s) else ''qwen2.5:14b'')"

definition setCurrentModel :: "string \<Rightarrow> app \<Rightarrow> app" where
  "setCurrentModel m s = s\<lparr>selectedModel := Some m\<rparr>"

subsection \<open>The channel and its messages\<close>

definition connectWebSocket :: "string option \<Rightarrow> app \<Rightarrow> app" where
  "connectWebSocket generationId s =
     s\<lparr>ws := Some \<lparr>ws_generationId = generationId, ws_readyState = CONNECTING\<rparr>,
       trace := trace s @ [NewWebSocket generationId]\<rparr>"

definition handleGenerationComplete :: "int \<Rightarrow> app \<Rightarrow> app" where
  "handleGenerationComplete now s =
     showToast ''Generation completed'' ''success''
       (saveLastGeneration now
         (loadHistory
           (updateUIState
              (Some \<lparr>gen_id = None, gen_status = ''completed'', gen_output = None,
                     gen_prompt = None, gen_error = None\<rparr>)
              (updateStatus ''Completed'' (setGeneratingState False s)))))"

definition handleGenerationError :: "string \<Rightarrow> app \<Rightarrow> app" where
  "handleGenerationError msg s =
     showToast (''Generation failed: '' @ msg) ''error''
       (updateUIState
          (Some \<lparr>gen_id = None, gen_status = ''failed'', gen_output = None,
                 gen_prompt = None, gen_error = None\<rparr>)
          (updateStatus ''Failed'' (setGeneratingState False s)))"

text \<open>\<open>this.tokenCount++\<close> on a double that holds the integer \<open>n\<close>. The sum \<open>n + 1\<close> is
  exact up to \<open>2^53\<close> in magnitude. Beyond, up to \<open>2^54\<close>, the doubles are the even
  integers and \<open>n + 1\<close> lies halfway between \<open>n\<close> and \<open>n + 2\<close>: the sum is the one of
  the two with the even significand, the multiple of 4. From \<open>2^54\<close> on the doubles are
  4 or more apart and the sum is \<open>n\<close> again.\<close>

definition increment :: "int \<Rightarrow> int" where
  "increment n =
     (if \<bar>n + 1\<bar> \<le> 2 ^ 53 then n + 1
      else if \<bar>n + 1\<bar> < 2 ^ 54 then (if 4 dvd n then n else n + 2)
      else n)"

text \<open>The remainder of doubles is exact: \<open>n % 10 === 0\<close> holds exactly when 10 divides
  \<open>n\<close>, whatever the sign; so does \<open>n mod 10 = 0\<close>.\<close>

fun handleWebSocketMessage :: "int \<Rightarrow> message \<Rightarrow> app \<Rightarrow> app" where
  "handleWebSocketMessage now (Token d) s =
     (let s1 = s\<lparr>outputBuffer := outputBuffer s @ d, tokenCount := increment (tokenCount s)\<rparr>;
          s2 = renderOutput (outputBuffer s1) s1
      in if tokenCount s2 mod 10 = 0 then saveLastGeneration now s2 else s2)"
| "handleWebSocketMessage now (Progress tokens) s = s\<lparr>tokenCount := tokens\<rparr>"
| "handleWebSocketMessage now (Status st) s = updateStatus st s"
| "handleWebSocketMessage now (Done language filename) s = handleGenerationComplete now s"
| "handleWebSocketMessage now (Error msg) s = handleGenerationError msg s"
| "handleWebSocketMessage now Other s = s"

text \<open>The handlers installed on every socket. \<open>onmessage\<close> drops a frame that is not JSON
  (\<open>None\<close>). They act on the object whichever socket fires them.\<close>

definition ws_onmessage :: "int \<Rightarrow> message option \<Rightarrow> app \<Rightarrow> app" where
  "ws_onmessage now frame s =
     (case frame of None \<Rightarrow> s | Some m \<Rightarrow> handleWebSocketMessage now m s)"

definition ws_onerror :: "app \<Rightarrow> app" where
  "ws_onerror s = setGeneratingState False (showToast ''Connection error'' ''error'' s)"

definition ws_onclose :: "app \<Rightarrow> app" where
  "ws_onclose s = updateStatus ''Ready'' (setGeneratingState False s)"

text \<open>Messages delivered in arrival order, each with the clock at its delivery.\<close>

fun deliver :: "(int \<times> message) list \<Rightarrow> app \<Rightarrow> app" where
  "deliver [] s = s"
| "deliver ((now, m) # ms) s = deliver ms (ws_onmessage now (Some m) s)"

subsection \<open>Starting a generation\<close>

text \<open>\<open>startGeneration\<close>. Its argument is the settled \<open>POST /generate\<close>, whose JSON is the
  \<open>id\<close> member of the body (\<open>None\<close> when the body has none). \<open>showModelModal\<close> is not
  awaited: the request for the model list is all that happens before the \<open>return\<close>.\<close>

definition startGeneration :: "string option fetched \<Rightarrow> app \<Rightarrow> app" where
  "startGeneration created s =
     (let prompt = trim (promptInput s) in
      if prompt = [] then showToast ''Please enter a prompt'' ''warning'' s
      else
        let currentModel = getCurrentModel s in
        if currentModel = [] \<or> currentModel = ''Select a model''
           \<or> currentModel = ''No models available'' \<or> currentModel = ''Error loading models''
        then fetch GetModels (showToast ''Please select a model before generating code'' ''error'' s)
        else
          let s1 = setGeneratingState True s;
              streaming = (\<lambda>t. updateStatus ''Generating...'' (t\<lparr>outputBuffer := [], tokenCount := 0\<rparr>));
              failed = (\<lambda>t. updateStatus ''Ready'' (setGeneratingState False
                          (showToast ''Failed to start generation'' ''error'' t)))
          in if truthy (currentGenerationId s1)
             then streaming (connectWebSocket (currentGenerationId s1) (updateStatus ''Regenerating...'' s1))
             else
               let s2 = fetch (PostGenerate prompt) (updateStatus ''Creating generation...'' s1) in
               (case created of
                  Rejected \<Rightarrow> failed s2
                | Resolved r \<Rightarrow>
                    (case json r of
                       None \<Rightarrow> failed s2
                     | Some gid \<Rightarrow> streaming (connectWebSocket gid (s2\<lparr>currentGenerationId := gid\<rparr>)))))"

text \<open>\<open>initializeModelSelection\<close>, which writes the placeholder texts into the element
  \<open>modelName\<close>. The body of \<open>GET /models\<close> is an error or the names of the models; the
  outcome of \<open>setModelInBackend\<close> is swallowed by the code.\<close>

datatype models_data = ModelsError | Models "string list"

definition initializeModelSelection :: "models_data fetched \<Rightarrow> app \<Rightarrow> app" where
  "initializeModelSelection listed s =
     (let s1 = fetch GetModels s;
          failed = showToast ''Failed to load models'' ''error'' (s1\<lparr>modelName := ''Error loading models''\<rparr>)
      in case listed of
           Rejected \<Rightarrow> failed
         | Resolved r \<Rightarrow>
             (case json r of
                None \<Rightarrow> failed
              | Some ModelsError \<Rightarrow> failed
              | Some (Models models) \<Rightarrow>
                  if models = [] then
                    showToast ''No models available. Please install models in Ollama.'' ''warning''
                      (s1\<lparr>modelName := ''No models available''\<rparr>)
                  else if length models = 1 then
                    fetch (PostModelsSet (hd models))
                      (showToast (''Auto-selected model: '' @ hd models) ''success''
                         ((setCurrentModel (hd models) s1)\<lparr>modelName := hd models\<rparr>))
                  else if getCurrentModel s1 \<notin> set models then
                    showToast ''Please select a model to continue'' ''warning''
                      (s1\<lparr>modelName := ''Select a model''\<rparr>)
                  else
                    fetch (PostModelsSet (getCurrentModel s1)) (s1\<lparr>modelName := getCurrentModel s1\<rparr>)))"

subsection \<open>Stopping\<close>

text \<open>The local \<open>currentOutput\<close> of \<open>stopGeneration\<close>, and the object \<open>stoppedGeneration\<close>.\<close>

definition currentOutput :: "string \<Rightarrow> string" where
  "currentOutput buffer =
     (if buffer \<noteq> [] \<and> \<not> endsWith (trim buffer) ''```''
      then trim buffer @ ''\<newline>```''
      else buffer)"

definition stoppedGeneration :: "string \<Rightarrow> string \<Rightarrow> generation" where
  "stoppedGeneration out p =
     \<lparr>gen_id = None, gen_status = ''stopped'', gen_output = Some out, gen_prompt = Some p,
      gen_error = None\<rparr>"

definition ws_close :: "app \<Rightarrow> app" where
  "ws_close s =
     (case ws s of
        None \<Rightarrow> s
      | Some w \<Rightarrow>
          s\<lparr>ws := Some (w\<lparr>ws_readyState := (if ws_readyState w = CLOSED then CLOSED else CLOSING)\<rparr>),
            trace := trace s @ [WsClose]\<rparr>)"

definition stopGeneration :: "int \<Rightarrow> 'a fetched \<Rightarrow> app \<Rightarrow> app" where
  "stopGeneration now stopped s =
     (if \<not> truthy (currentGenerationId s) then s
      else
        let out = currentOutput (outputBuffer s);
            s1 = fetch (PostStop (the (currentGenerationId s)) out) s
        in case stopped of
             Rejected \<Rightarrow> showToast ''Failed to stop generation'' ''error'' s1
           | Resolved r \<Rightarrow>
               saveLastGeneration now
                 (loadHistory
                   (showToast ''Generation stopped'' ''info''
                     (updateUIState (Some (stoppedGeneration out (promptInput s1)))
                       (updateStatus ''Stopped'' (setGeneratingState False (ws_close s1)))))))"

subsection \<open>Showing a generation, starting afresh\<close>

definition displayGeneration :: "int \<Rightarrow> generation \<Rightarrow> app \<Rightarrow> app" where
  "displayGeneration now g s =
     (let s1 = updateUIState (Some g) (s\<lparr>currentGenerationId := gen_id g\<rparr>);
          s2 = (if truthy (gen_output g) \<and> trim (the (gen_output g)) \<noteq> []
                then (renderOutput (the (gen_output g)) s1)\<lparr>outputBuffer := the (gen_output g)\<rparr>
                else s1)
      in saveLastGeneration now (updateStatus (''Loaded: '' @ gen_status g) s2))"

definition startNewGeneration :: "app \<Rightarrow> app" where
  "startNewGeneration s =
     showToast ''Ready for new generation'' ''info''
       (clearSavedState
         (updateUIState None
           (updateStatus ''Ready''
             (s\<lparr>currentGenerationId := None, outputBuffer := [], tokenCount := 0,
                promptInput := []\<rparr>))))"

definition loadGeneration :: "int \<Rightarrow> string \<Rightarrow> generation fetched \<Rightarrow> app \<Rightarrow> app" where
  "loadGeneration now gid loaded s =
     (let s1 = fetch (GetHistoryById gid) s;
          failed = (\<lambda>t. startNewGeneration (clearSavedState
                      (showToast ''Failed to load generation'' ''error'' t)))
      in case loaded of
           Rejected \<Rightarrow> failed s1
         | Resolved r \<Rightarrow>
             if \<not> ok r then
               (if status r = 404 then startNewGeneration (clearSavedState s1) else failed s1)
             else
               (case json r of
                  None \<Rightarrow> failed s1
                | Some g \<Rightarrow>
                    showToast ''Generation loaded'' ''success''
                      (displayGeneration now g (s1\<lparr>currentGenerationId := Some gid\<rparr>))))"

subsection \<open>Restoring the persisted snapshot\<close>

definition restoreNewGenerationState :: "snapshot \<Rightarrow> app \<Rightarrow> app" where
  "restoreNewGenerationState st s =
     (let s1 = s\<lparr>promptInput := state_prompt st, outputBuffer := state_outputBuffer st,
                 tokenCount := state_tokenCount st\<rparr>;
          s2 = (if outputBuffer s1 \<noteq> [] then renderOutput (outputBuffer s1) s1 else s1)
      in updateStatus ''Ready'' (updateUIState None s2))"

definition restorePromptOnly :: "snapshot \<Rightarrow> app \<Rightarrow> app" where
  "restorePromptOnly st s =
     updateStatus ''Ready'' (updateUIState None (s\<lparr>promptInput := state_prompt st\<rparr>))"

text \<open>\<open>loadLastGeneration\<close>; \<open>loaded\<close> is the settled \<open>GET /history/{id}\<close> of the
  \<open>loadGeneration\<close> it may call. The difference of the two integer clocks is below 24
  hours as a double exactly when it is as an integer: below \<open>2^53\<close> in magnitude it is
  exact, and rounding preserves the order.\<close>

definition loadLastGeneration :: "int \<Rightarrow> generation fetched \<Rightarrow> app \<Rightarrow> app" where
  "loadLastGeneration now loaded s =
     (case appState s of
        None \<Rightarrow> s
      | Some Corrupt \<Rightarrow> clearSavedState s
      | Some (Parsed st) \<Rightarrow>
          (let isRecent = (now - state_timestamp st < 24 * 60 * 60 * 1000) in
           if isRecent \<and> truthy (state_generationId st)
             then loadGeneration now (the (state_generationId st)) loaded s
           else if isRecent \<and> state_prompt st \<noteq> [] \<and> state_outputBuffer st \<noteq> []
             then restoreNewGenerationState st s
           else if isRecent \<and> state_prompt st \<noteq> []
             then restorePromptOnly st s
           else clearSavedState s))"

subsection \<open>The health monitor\<close>

text \<open>\<open>markGenerationAsFailed\<close>, split at its \<open>await\<close>: the guard and the request, then what
  runs when the request settles.\<close>

definition markGenerationAsFailed_request :: "string \<Rightarrow> app \<Rightarrow> app option" where
  "markGenerationAsFailed_request errorMessage s =
     (if \<not> truthy (currentGenerationId s) \<or> \<not> isGenerating s then None
      else Some (fetch (PostFail (the (currentGenerationId s)) errorMessage (outputBuffer s)) s))"

definition markGenerationAsFailed_settled :: "int \<Rightarrow> string \<Rightarrow> 'a fetched \<Rightarrow> app \<Rightarrow> app" where
  "markGenerationAsFailed_settled now errorMessage marked s =
     (case marked of
        Rejected \<Rightarrow> showToast ''Generation failed - please try again'' ''error'' (setGeneratingState False s)
      | Resolved r \<Rightarrow>
          if ok r then
            showToast ''Generation failed due to connection loss'' ''error''
              (displayGeneration now
                 \<lparr>gen_id = currentGenerationId s, gen_status = ''failed'',
                  gen_output = Some (outputBuffer s), gen_prompt = Some (promptInput s),
                  gen_error = Some errorMessage\<rparr>
                 (setGeneratingState False s))
          else s)"

definition markGenerationAsFailed :: "int \<Rightarrow> string \<Rightarrow> 'a fetched \<Rightarrow> app \<Rightarrow> app" where
  "markGenerationAsFailed now errorMessage marked s =
     (case markGenerationAsFailed_request errorMessage s of
        None \<Rightarrow> s
      | Some s1 \<Rightarrow> markGenerationAsFailed_settled now errorMessage marked s1)"

text \<open>\<open>checkGenerationHealth\<close>, with the three requests it may await: the health probe, the
  status of the generation, the failure report.\<close>

definition checkGenerationHealth ::
    "int \<Rightarrow> 'h fetched \<Rightarrow> generation fetched \<Rightarrow> 'a fetched \<Rightarrow> app \<Rightarrow> app" where
  "checkGenerationHealth now health loaded marked s =
     (if \<not> truthy (currentGenerationId s) \<or> \<not> isGenerating s then s
      else
        let unreachable = (\<lambda>t. if isGenerating t
                then markGenerationAsFailed now ''Server connection lost - generation failed'' marked t
                else t);
            s1 = fetch GetHealth s
        in case health of
             Rejected \<Rightarrow> unreachable s1
           | Resolved h \<Rightarrow>
               if \<not> ok h then unreachable s1
               else
                 let s2 = fetch (GetHistoryById (the (currentGenerationId s1))) s1 in
                 (case loaded of
                    Rejected \<Rightarrow> unreachable s2
                  | Resolved r \<Rightarrow>
                      if \<not> ok r then unreachable s2
                      else
                        (case json r of
                           None \<Rightarrow> unreachable s2
                         | Some g \<Rightarrow>
                             if gen_status g = ''processing''
                                \<and> (case ws s2 of None \<Rightarrow> True | Some w \<Rightarrow> ws_readyState w = CLOSED)
                             then markGenerationAsFailed now ''Connection lost - generation interrupted'' marked s2
                             else s2)))"

text \<open>The callback of \<open>startConnectionHealthChecker\<close>, run every 10 seconds.\<close>

definition healthTick ::
    "int \<Rightarrow> 'h fetched \<Rightarrow> generation fetched \<Rightarrow> 'a fetched \<Rightarrow> app \<Rightarrow> app" where
  "healthTick now health loaded marked s =
     (if isGenerating s then checkGenerationHealth now health loaded marked s else s)"

text \<open>The channels opened so far.\<close>

definition opened :: "app \<Rightarrow> io list" where
  "opened s = filter (\<lambda>e. case e of NewWebSocket _ \<Rightarrow> True | _ \<Rightarrow> False) (trace s)"

text \<open>What the browser does to the socket held in \<open>this.ws\<close>: it connects (\<open>onopen\<close> only
  logs), or it closes, which sets \<open>readyState\<close> and fires \<open>onclose\<close> in one task.\<close>

definition opens :: "app \<Rightarrow> app" where
  "opens s = s\<lparr>ws := map_option (\<lambda>w. w\<lparr>ws_readyState := OPEN\<rparr>) (ws s)\<rparr>"

definition closes :: "app \<Rightarrow> app" where
  "closes s = ws_onclose (s\<lparr>ws := map_option (\<lambda>w. w\<lparr>ws_readyState := CLOSED\<rparr>) (ws s)\<rparr>)"

section \<open>Properties\<close>

lemmas small_defs = setGeneratingState_def updateStatus_def showToast_def fetch_def
  loadHistory_def updateUIState_def saveLastGeneration_def clearSavedState_def

subsection \<open>Streaming\<close>

text \<open>Rendering the buffer itself never changes it: in the \<open>token\<close> case \<open>renderOutput\<close>
  is called on \<open>this.outputBuffer\<close>.\<close>

lemma renderOutput_own: "renderOutput (outputBuffer s) s = s"
  by (simp add: renderOutput_def)

lemma token_outputBuffer:
  "outputBuffer (handleWebSocketMessage now (Token t) s) = outputBuffer s @ t"
  by (simp add: Let_def renderOutput_own saveLastGeneration_def)

lemma token_tokenCount:
  "tokenCount (handleWebSocketMessage now (Token t) s) = increment (tokenCount s)"
  by (simp add: Let_def renderOutput_own saveLastGeneration_def)

text \<open>In the range of the safe integers the increment is exact.\<close>

lemma increment_exact: "- (2 ^ 53) \<le> n \<Longrightarrow> n < 2 ^ 53 \<Longrightarrow> increment n = n + 1"
  by (simp add: increment_def abs_le_iff)

lemma deliver_tokens_outputBuffer:
  "outputBuffer (deliver (map (\<lambda>(now, t). (now, Token t)) ts) s) = outputBuffer s @ concat (map snd ts)"
proof (induction ts arbitrary: s)
  case Nil
  show ?case by simp
next
  case (Cons p ts)
  obtain now t where p: "p = (now, t)" by (cases p)
  show ?case
    using Cons.IH [of "handleWebSocketMessage now (Token t) s"]
    by (simp add: p ws_onmessage_def token_outputBuffer del: handleWebSocketMessage.simps)
qed

lemma deliver_tokens_tokenCount:
  assumes "- (2 ^ 53) \<le> tokenCount s" and "tokenCount s + int (length ts) \<le> 2 ^ 53"
  shows "tokenCount (deliver (map (\<lambda>(now, t). (now, Token t)) ts) s) = tokenCount s + int (length ts)"
  using assms
proof (induction ts arbitrary: s)
  case Nil
  show ?case by simp
next
  case (Cons p ts)
  obtain now t where p: "p = (now, t)" by (cases p)
  let ?s = "handleWebSocketMessage now (Token t) s"
  have step: "tokenCount ?s = tokenCount s + 1"
    using Cons.prems
    by (simp add: token_tokenCount increment_exact del: handleWebSocketMessage.simps)
  have "tokenCount (deliver (map (\<lambda>(now, t). (now, Token t)) ts) ?s) = tokenCount ?s + int (length ts)"
    using Cons.prems step
    by (intro Cons.IH) (simp_all del: handleWebSocketMessage.simps)
  then show ?case
    by (simp add: p ws_onmessage_def step del: handleWebSocketMessage.simps)
qed

text \<open>
  \<^bold>\<open>C5\<close> (buffer monotonicity). Let \<open>token\<close> events with payloads \<open>t1..tn\<close> be delivered, in
  this order and with nothing in between, to a session whose buffer is empty and whose
  count is zero (as \<open>startGeneration\<close> leaves them). Then \<open>outputBuffer\<close> is
  \<open>t1 @ ... @ tn\<close>, and \<open>tokenCount\<close> is \<open>n\<close> for every \<open>n\<close> up to \<open>2^53\<close>, as far as the
  double counts without rounding. Each event carries the clock at its delivery, which the
  result does not depend on.
\<close>

theorem buffer_monotonicity:
  assumes "outputBuffer s = []" and "tokenCount s = 0"
  shows "outputBuffer (deliver (map (\<lambda>(now, t). (now, Token t)) ts) s) = concat (map snd ts)
         \<and> (int (length ts) \<le> 2 ^ 53 \<longrightarrow>
              tokenCount (deliver (map (\<lambda>(now, t). (now, Token t)) ts) s) = int (length ts))"
  using deliver_tokens_outputBuffer [of ts s] deliver_tokens_tokenCount [of s ts] assms by simp

theorem buffer_monotonicity_witness:
  "outputBuffer (constructor None None None) = [] \<and> tokenCount (constructor None None None) = 0
   \<and> outputBuffer (deliver [(1, Token ''ab''), (2, Token ''c'')] (constructor None None None)) = ''abc''
   \<and> tokenCount (deliver [(1, Token ''ab''), (2, Token ''c'')] (constructor None None None)) = 2"
  using buffer_monotonicity [of "constructor None None None" "[(1, ''ab''), (2, ''c'')]"]
  by (simp add: constructor_def)

text \<open>
  \<^bold>\<open>C7\<close> (the \<open>token\<close> self-loop). Let the count be a safe integer, from \<open>-2^53\<close> to
  below \<open>2^53\<close>, where the double adds one without rounding. A \<open>token\<close> event appends its
  payload to the buffer and adds one to the count. It writes the snapshot of the new state
  exactly when the new count is a multiple of 10; at every other token the stored snapshot
  stays as it was.
\<close>

theorem token_event:
  assumes "- (2 ^ 53) \<le> tokenCount s" and "tokenCount s < 2 ^ 53"
  shows "outputBuffer (ws_onmessage now (Some (Token t)) s) = outputBuffer s @ t
   \<and> tokenCount (ws_onmessage now (Some (Token t)) s) = tokenCount s + 1
   \<and> ((tokenCount s + 1) mod 10 = 0 \<longrightarrow>
        appState (ws_onmessage now (Some (Token t)) s) =
          Some (Parsed \<lparr>state_generationId = currentGenerationId s, state_prompt = promptInput s,
                        state_outputBuffer = outputBuffer s @ t, state_tokenCount = tokenCount s + 1,
                        state_isGenerating = isGenerating s, state_timestamp = now\<rparr>))
   \<and> ((tokenCount s + 1) mod 10 \<noteq> 0 \<longrightarrow>
        appState (ws_onmessage now (Some (Token t)) s) = appState s)"
  using increment_exact [OF assms]
  by (simp add: ws_onmessage_def Let_def renderOutput_own saveLastGeneration_def)

text \<open>The tenth token is saved, the first is not.\<close>

theorem token_event_witness:
  "appState (ws_onmessage 7 (Some (Token ''x'')) ((constructor None None None)\<lparr>tokenCount := 9\<rparr>)) =
     Some (Parsed \<lparr>state_generationId = None, state_prompt = [], state_outputBuffer = ''x'',
                   state_tokenCount = 10, state_isGenerating = False, state_timestamp = 7\<rparr>)
   \<and> appState (ws_onmessage 7 (Some (Token ''x'')) (constructor None None None)) = None"
  using token_event [where s = "(constructor None None None)\<lparr>tokenCount := 9\<rparr>" and now = 7 and t = "''x''"]
        token_event [where s = "constructor None None None" and now = 7 and t = "''x''"]
  by (simp add: constructor_def)

text \<open>Beyond the safe integers a token need not change the count: at \<open>2^53 + 8\<close> it
  leaves the count as it is, and the snapshot is written at this token and at every
  following one.\<close>

lemma token_event_beyond:
  "tokenCount (ws_onmessage 7 (Some (Token ''x''))
      ((constructor None None None)\<lparr>tokenCount := 9007199254741000\<rparr>)) = 9007199254741000
   \<and> appState (ws_onmessage 7 (Some (Token ''x''))
      ((constructor None None None)\<lparr>tokenCount := 9007199254741000\<rparr>)) =
     Some (Parsed \<lparr>state_generationId = None, state_prompt = [], state_outputBuffer = ''x'',
                   state_tokenCount = 9007199254741000, state_isGenerating = False,
                   state_timestamp = 7\<rparr>)"
  by (simp add: ws_onmessage_def Let_def renderOutput_own saveLastGeneration_def increment_def
        constructor_def)

text \<open>
  \<^bold>\<open>C9\<close> (frame of \<open>progress\<close>). A \<open>progress\<close> event replaces \<open>tokenCount\<close> by the value it
  carries. The buffer and the stored snapshot stay as they were; so does every other
  field: putting the old count back gives the old state.
\<close>

theorem progress_frame:
  "tokenCount (ws_onmessage now (Some (Progress n)) s) = n
   \<and> outputBuffer (ws_onmessage now (Some (Progress n)) s) = outputBuffer s
   \<and> appState (ws_onmessage now (Some (Progress n)) s) = appState s
   \<and> (ws_onmessage now (Some (Progress n)) s)\<lparr>tokenCount := tokenCount s\<rparr> = s"
  by (simp add: ws_onmessage_def)

subsection \<open>Stopping\<close>



lemma trim_fenced: "trim ''```py\<newline>print(1)'' = ''```py\<newline>print(1)''"
  by (simp add: trim_def isWhiteSpace_def)

lemma currentOutput_fenced:
  "currentOutput ''```py\<newline>print(1)'' = ''```py\<newline>print(1)\<newline>```''"
  by (simp add: currentOutput_def trim_fenced endsWith_def)

lemma round_trip_start:
  "opens (startGeneration (Resolved \<lparr>ok = True, status = 200, json = Some (Some ''g1'')\<rparr>)
     ((constructor None None None)\<lparr>promptInput := ''print one''\<rparr>)) =
   \<lparr>ws = Some \<lparr>ws_generationId = Some ''g1'', ws_readyState = OPEN\<rparr>,
    currentGenerationId = Some ''g1'', isGenerating = True, outputBuffer = [], tokenCount = 0,
    promptInput = ''print one'', statusText = ''Generating...'', modelName = [],
    appState = None, lastGenerationId = None, selectedModel = None,
    trace = [Fetch (PostGenerate ''print one''), NewWebSocket (Some ''g1'')]\<rparr>"
  by (simp add: startGeneration_def constructor_def getCurrentModel_def connectWebSocket_def
        opens_def small_defs trim_def isWhiteSpace_def Let_def)

lemma round_trip_token:
  "ws_onmessage 1 (Some (Token ''```py\<newline>print(1)''))
   \<lparr>ws = Some \<lparr>ws_generationId = Some ''g1'', ws_readyState = OPEN\<rparr>,
    currentGenerationId = Some ''g1'', isGenerating = True, outputBuffer = [], tokenCount = 0,
    promptInput = ''print one'', statusText = ''Generating...'', modelName = [],
    appState = None, lastGenerationId = None, selectedModel = None,
    trace = [Fetch (PostGenerate ''print one''), NewWebSocket (Some ''g1'')]\<rparr> =
   \<lparr>ws = Some \<lparr>ws_generationId = Some ''g1'', ws_readyState = OPEN\<rparr>,
    currentGenerationId = Some ''g1'', isGenerating = True,
    outputBuffer = ''```py\<newline>print(1)'', tokenCount = 1,
    promptInput = ''print one'', statusText = ''Generating...'', modelName = [],
    appState = None, lastGenerationId = None, selectedModel = None,
    trace = [Fetch (PostGenerate ''print one''), NewWebSocket (Some ''g1'')]\<rparr>"
  by (simp add: ws_onmessage_def renderOutput_def Let_def increment_def)

lemma round_trip_stop:
  "stopGeneration 2 (Resolved r)
   \<lparr>ws = Some \<lparr>ws_generationId = Some ''g1'', ws_readyState = OPEN\<rparr>,
    currentGenerationId = Some ''g1'', isGenerating = True,
    outputBuffer = ''```py\<newline>print(1)'', tokenCount = 1,
    promptInput = ''print one'', statusText = ''Generating...'', modelName = [],
    appState = None, lastGenerationId = None, selectedModel = None,
    trace = [Fetch (PostGenerate ''print one''), NewWebSocket (Some ''g1'')]\<rparr> =
   \<lparr>ws = Some \<lparr>ws_generationId = Some ''g1'', ws_readyState = CLOSING\<rparr>,
    currentGenerationId = Some ''g1'', isGenerating = False,
    outputBuffer = ''```py\<newline>print(1)'', tokenCount = 1,
    promptInput = ''print one'', statusText = ''Stopped'', modelName = [],
    appState = Some (Parsed \<lparr>state_generationId = Some ''g1'', state_prompt = ''print one'',
       state_outputBuffer = ''```py\<newline>print(1)'', state_tokenCount = 1,
       state_isGenerating = False, state_timestamp = 2\<rparr>),
    lastGenerationId = None, selectedModel = None,
    trace = [Fetch (PostGenerate ''print one''), NewWebSocket (Some ''g1''),
             Fetch (PostStop ''g1'' ''```py\<newline>print(1)\<newline>```''),
             WsClose, Toast ''Generation stopped'' ''info'', Fetch GetHistory]\<rparr>"
  using currentOutput_fenced
  by (simp add: stopGeneration_def Let_def stoppedGeneration_def ws_close_def small_defs)






text \<open>
  \<^bold>\<open>C3\<close> (stop round-trip) does not hold as stated. After the run of the claim the output
  that the controller holds, in \<open>outputBuffer\<close> and in the snapshot it has stored, is the
  token as it arrived, without the closing fence; and when the close event arrives that the
  stop's own \<open>ws.close()\<close> brings about, the status becomes \<open>Ready\<close>.
\<close>

theorem stop_round_trip_counterexample:
  "outputBuffer (stopGeneration 2 (Resolved \<lparr>ok = True, status = 200, json = Some ()\<rparr>)
     (ws_onmessage 1 (Some (Token ''```py\<newline>print(1)''))
       (opens (startGeneration (Resolved \<lparr>ok = True, status = 200, json = Some (Some ''g1'')\<rparr>)
         ((constructor None None None)\<lparr>promptInput := ''print one''\<rparr>))))) = ''```py\<newline>print(1)''
   \<and> appState (stopGeneration 2 (Resolved \<lparr>ok = True, status = 200, json = Some ()\<rparr>)
     (ws_onmessage 1 (Some (Token ''```py\<newline>print(1)''))
       (opens (startGeneration (Resolved \<lparr>ok = True, status = 200, json = Some (Some ''g1'')\<rparr>)
         ((constructor None None None)\<lparr>promptInput := ''print one''\<rparr>))))) =
       Some (Parsed \<lparr>state_generationId = Some ''g1'', state_prompt = ''print one'',
       state_outputBuffer = ''```py\<newline>print(1)'', state_tokenCount = 1, state_isGenerating = False,
       state_timestamp = 2\<rparr>)
   \<and> statusText (closes (stopGeneration 2 (Resolved \<lparr>ok = True, status = 200, json = Some ()\<rparr>)
     (ws_onmessage 1 (Some (Token ''```py\<newline>print(1)''))
       (opens (startGeneration (Resolved \<lparr>ok = True, status = 200, json = Some (Some ''g1'')\<rparr>)
         ((constructor None None None)\<lparr>promptInput := ''print one''\<rparr>)))))) = ''Ready''"
  by (simp add: round_trip_start round_trip_token round_trip_stop closes_def ws_onclose_def
        small_defs)

text \<open>
  \<^bold>\<open>C3\<close>, as the code has it. On a fresh page the prompt \<open>print one\<close> is entered and a
  generation is started, for which the server answers the id \<open>g1\<close>; the socket opens, the
  single token \<open>```py\nprint(1)\<close> arrives, and the generation is stopped, the stop request
  resolving with any response \<open>r\<close>. The output transmitted, in \<open>POST /stop/g1\<close>, is
  \<open>```py\nprint(1)\n```\<close>, with the closing fence. The controller's \<open>outputBuffer\<close> and
  the snapshot it stores keep the token as it arrived. At the end of the stop the status
  is \<open>Stopped\<close> and the controller is not generating; the close event of the socket that
  the stop has closed then sets the status to \<open>Ready\<close>. Both states are written out in
  full.
\<close>

theorem stop_round_trip:
  "stopGeneration 2 (Resolved r)
     (ws_onmessage 1 (Some (Token ''```py\<newline>print(1)''))
       (opens (startGeneration (Resolved \<lparr>ok = True, status = 200, json = Some (Some ''g1'')\<rparr>)
         ((constructor None None None)\<lparr>promptInput := ''print one''\<rparr>)))) =
   \<lparr>ws = Some \<lparr>ws_generationId = Some ''g1'', ws_readyState = CLOSING\<rparr>,
    currentGenerationId = Some ''g1'', isGenerating = False, outputBuffer = ''```py\<newline>print(1)'', tokenCount = 1,
    promptInput = ''print one'', statusText = ''Stopped'', modelName = [],
    appState = Some (Parsed \<lparr>state_generationId = Some ''g1'', state_prompt = ''print one'',
       state_outputBuffer = ''```py\<newline>print(1)'', state_tokenCount = 1, state_isGenerating = False,
       state_timestamp = 2\<rparr>), lastGenerationId = None, selectedModel = None,
    trace = [Fetch (PostGenerate ''print one''), NewWebSocket (Some ''g1''),
             Fetch (PostStop ''g1'' ''```py\<newline>print(1)\<newline>```''),
             WsClose, Toast ''Generation stopped'' ''info'', Fetch GetHistory]\<rparr>
   \<and> closes (stopGeneration 2 (Resolved r)
     (ws_onmessage 1 (Some (Token ''```py\<newline>print(1)''))
       (opens (startGeneration (Resolved \<lparr>ok = True, status = 200, json = Some (Some ''g1'')\<rparr>)
         ((constructor None None None)\<lparr>promptInput := ''print one''\<rparr>))))) =
   \<lparr>ws = Some \<lparr>ws_generationId = Some ''g1'', ws_readyState = CLOSED\<rparr>,
    currentGenerationId = Some ''g1'', isGenerating = False, outputBuffer = ''```py\<newline>print(1)'', tokenCount = 1,
    promptInput = ''print one'', statusText = ''Ready'', modelName = [],
    appState = Some (Parsed \<lparr>state_generationId = Some ''g1'', state_prompt = ''print one'',
       state_outputBuffer = ''```py\<newline>print(1)'', state_tokenCount = 1, state_isGenerating = False,
       state_timestamp = 2\<rparr>), lastGenerationId = None, selectedModel = None,
    trace = [Fetch (PostGenerate ''print one''), NewWebSocket (Some ''g1''),
             Fetch (PostStop ''g1'' ''```py\<newline>print(1)\<newline>```''),
             WsClose, Toast ''Generation stopped'' ''info'', Fetch GetHistory]\<rparr>"
  by (simp add: round_trip_start round_trip_token round_trip_stop closes_def ws_onclose_def
        small_defs)

subsection \<open>Restoring\<close>

lemma opened_cong: "trace s = trace t \<Longrightarrow> opened s = opened t"
  by (simp add: opened_def)

lemma displayGeneration_frame:
  "isGenerating (displayGeneration now g s) = isGenerating s"
  "ws (displayGeneration now g s) = ws s"
  "trace (displayGeneration now g s) = trace s"
  by (simp_all add: displayGeneration_def renderOutput_def small_defs Let_def)

lemma startNewGeneration_frame:
  "isGenerating (startNewGeneration s) = isGenerating s"
  "ws (startNewGeneration s) = ws s"
  "trace (startNewGeneration s) = trace s @ [Toast ''Ready for new generation'' ''info'']"
  by (simp_all add: startNewGeneration_def small_defs)

lemma loadGeneration_frame:
  "isGenerating (loadGeneration now gid loaded s) = isGenerating s"
  "ws (loadGeneration now gid loaded s) = ws s"
  "opened (loadGeneration now gid loaded s) = opened s"
  by (simp_all add: loadGeneration_def Let_def displayGeneration_frame startNewGeneration_frame
        opened_def small_defs split: fetched.splits option.splits)

lemma restoreNewGenerationState_frame:
  "isGenerating (restoreNewGenerationState st s) = isGenerating s"
  "ws (restoreNewGenerationState st s) = ws s"
  "trace (restoreNewGenerationState st s) = trace s"
  by (simp_all add: restoreNewGenerationState_def renderOutput_def small_defs Let_def)

lemma restorePromptOnly_frame:
  "isGenerating (restorePromptOnly st s) = isGenerating s"
  "ws (restorePromptOnly st s) = ws s"
  "trace (restorePromptOnly st s) = trace s"
  by (simp_all add: restorePromptOnly_def small_defs)

lemma clearSavedState_frame:
  "isGenerating (clearSavedState s) = isGenerating s"
  "ws (clearSavedState s) = ws s"
  "trace (clearSavedState s) = trace s"
  by (simp_all add: clearSavedState_def)

lemmas restore_frames = loadGeneration_frame restoreNewGenerationState_frame
  restorePromptOnly_frame clearSavedState_frame

lemma loadLastGeneration_frame:
  "isGenerating (loadLastGeneration now loaded s) = isGenerating s"
  "ws (loadLastGeneration now loaded s) = ws s"
  "opened (loadLastGeneration now loaded s) = opened s"
  by (simp_all add: loadLastGeneration_def Let_def restore_frames opened_cong [of "clearSavedState s" s]
        opened_cong [of "restoreNewGenerationState st s" s for st]
        opened_cong [of "restorePromptOnly st s" s for st]
        split: option.splits stored.splits)

text \<open>The stored snapshot is read by \<open>loadLastGeneration\<close> alone; the methods it calls
  behave the same whatever the slot holds.\<close>

lemma displayGeneration_slot:
  "displayGeneration now g (s\<lparr>appState := a\<rparr>) = displayGeneration now g s"
  by (simp add: displayGeneration_def renderOutput_def small_defs Let_def)

lemma startNewGeneration_slot:
  "startNewGeneration (clearSavedState (s\<lparr>appState := a\<rparr>)) = startNewGeneration (clearSavedState s)"
  by (simp add: startNewGeneration_def small_defs)

lemma loadGeneration_slot:
  "loadGeneration now gid loaded (s\<lparr>appState := a\<rparr>) = loadGeneration now gid loaded s"
  by (simp add: loadGeneration_def Let_def small_defs startNewGeneration_def displayGeneration_def renderOutput_def
       split: fetched.splits option.splits)

lemma restoreNewGenerationState_slot:
  "(restoreNewGenerationState st (s\<lparr>appState := a\<rparr>))\<lparr>appState := x\<rparr>
     = (restoreNewGenerationState st s)\<lparr>appState := x\<rparr>"
  by (simp add: restoreNewGenerationState_def renderOutput_def small_defs Let_def)

lemma restoreNewGenerationState_flag:
  "restoreNewGenerationState (st\<lparr>state_isGenerating := b\<rparr>) s = restoreNewGenerationState st s"
  by (simp add: restoreNewGenerationState_def)

lemma restorePromptOnly_slot:
  "(restorePromptOnly st (s\<lparr>appState := a\<rparr>))\<lparr>appState := x\<rparr> = (restorePromptOnly st s)\<lparr>appState := x\<rparr>"
  by (simp add: restorePromptOnly_def small_defs)

lemma restorePromptOnly_flag:
  "restorePromptOnly (st\<lparr>state_isGenerating := b\<rparr>) s = restorePromptOnly st s"
  by (simp add: restorePromptOnly_def)

lemma clearSavedState_slot:
  "clearSavedState (s\<lparr>appState := a\<rparr>) = clearSavedState s"
  by (simp add: clearSavedState_def)

lemma loadLastGeneration_flag:
  "(loadLastGeneration now loaded (s\<lparr>appState := Some (Parsed (st\<lparr>state_isGenerating := b\<rparr>))\<rparr>))\<lparr>appState := x\<rparr>
     = (loadLastGeneration now loaded (s\<lparr>appState := Some (Parsed st)\<rparr>))\<lparr>appState := x\<rparr>"
  by (simp add: loadLastGeneration_def Let_def loadGeneration_slot clearSavedState_slot
        restoreNewGenerationState_flag restorePromptOnly_flag
        restoreNewGenerationState_slot [where s = s and x = x] restorePromptOnly_slot [where s = s and x = x])

text \<open>
  \<^bold>\<open>C4\<close> (snapshot staleness). A stored snapshot whose \<open>timestamp\<close> lies 24 hours or more
  before the clock at restore time is never restored: \<open>loadLastGeneration\<close> ends in the
  state it ends in when the storage holds no snapshot at all, neither under \<open>appState\<close>
  nor under the old-format key \<open>lastGenerationId\<close>, and the stale record is gone from the
  storage.
\<close>

theorem stale_snapshot_discarded:
  assumes "24 * 60 * 60 * 1000 \<le> now - state_timestamp st"
  shows "loadLastGeneration now loaded (s\<lparr>appState := Some (Parsed st)\<rparr>) =
           loadLastGeneration now loaded (s\<lparr>appState := None, lastGenerationId := None\<rparr>)
         \<and> appState (loadLastGeneration now loaded (s\<lparr>appState := Some (Parsed st)\<rparr>)) = None"
  using assms by (simp add: loadLastGeneration_def clearSavedState_def)

text \<open>A snapshot one millisecond older than 24 hours, saved in mid-stream.\<close>

theorem stale_snapshot_discarded_witness:
  "loadLastGeneration 86400001 Rejected
     (constructor (Some (Parsed \<lparr>state_generationId = Some ''g1'', state_prompt = ''p'',
        state_outputBuffer = ''out'', state_tokenCount = 3, state_isGenerating = True,
        state_timestamp = 0\<rparr>)) None None) = constructor None None None"
  using stale_snapshot_discarded [where now = 86400001 and loaded = Rejected
     and s = "constructor None None None"
     and st = "\<lparr>state_generationId = Some ''g1'', state_prompt = ''p'',
        state_outputBuffer = ''out'', state_tokenCount = 3, state_isGenerating = True,
        state_timestamp = 0\<rparr>"]
  by (simp add: constructor_def loadLastGeneration_def)

text \<open>
  \<^bold>\<open>C10\<close> (restore never resumes streaming). \<open>loadLastGeneration\<close>, run to the end of the
  \<open>loadGeneration\<close> it may start, leaves \<open>isGenerating\<close> and the socket \<open>ws\<close> as they were
  and opens no channel. The flag \<open>isGenerating\<close> of the stored snapshot has no influence:
  with the flag set to any \<open>b\<close> the restore ends in the same state, up to the storage slot
  that holds the snapshot itself. So after the restore on a freshly constructed object,
  whatever the snapshot, the controller is not generating, holds no socket and has opened
  none.
\<close>

theorem restore_never_resumes:
  "isGenerating (loadLastGeneration now loaded s) = isGenerating s
   \<and> ws (loadLastGeneration now loaded s) = ws s
   \<and> opened (loadLastGeneration now loaded s) = opened s
   \<and> (loadLastGeneration now loaded (s\<lparr>appState := Some (Parsed (st\<lparr>state_isGenerating := b\<rparr>))\<rparr>))\<lparr>appState := x\<rparr>
       = (loadLastGeneration now loaded (s\<lparr>appState := Some (Parsed st)\<rparr>))\<lparr>appState := x\<rparr>
   \<and> \<not> isGenerating (loadLastGeneration now loaded (constructor (Some (Parsed st)) legacy model))
   \<and> ws (loadLastGeneration now loaded (constructor (Some (Parsed st)) legacy model)) = None
   \<and> opened (loadLastGeneration now loaded (constructor (Some (Parsed st)) legacy model)) = []"
  by (simp add: loadLastGeneration_frame loadLastGeneration_flag)
     (simp add: constructor_def opened_def)

subsection \<open>Terminal states and late signals\<close>

lemma markGenerationAsFailed_idle:
  "\<not> isGenerating s \<Longrightarrow> markGenerationAsFailed now msg marked s = s"
  by (simp add: markGenerationAsFailed_def markGenerationAsFailed_request_def)

lemma checkGenerationHealth_idle:
  "\<not> isGenerating s \<Longrightarrow> checkGenerationHealth now health loaded marked s = s"
  by (simp add: checkGenerationHealth_def)

lemma markGenerationAsFailed_settled_frame:
  "ws (markGenerationAsFailed_settled now msg marked s) = ws s"
  "opened (markGenerationAsFailed_settled now msg marked s) = opened s"
  by (simp_all add: markGenerationAsFailed_settled_def displayGeneration_frame opened_def small_defs
        split: fetched.splits)

lemma fetch_frame:
  "ws (fetch q s) = ws s"
  "opened (fetch q s) = opened s"
  "isGenerating (fetch q s) = isGenerating s"
  "currentGenerationId (fetch q s) = currentGenerationId s"
  by (simp_all add: fetch_def opened_def)

lemma markGenerationAsFailed_frame:
  "ws (markGenerationAsFailed now msg marked s) = ws s"
  "opened (markGenerationAsFailed now msg marked s) = opened s"
  by (simp_all add: markGenerationAsFailed_def markGenerationAsFailed_request_def
        markGenerationAsFailed_settled_frame fetch_frame)

lemma checkGenerationHealth_frame:
  "ws (checkGenerationHealth now health loaded marked s) = ws s"
  "opened (checkGenerationHealth now health loaded marked s) = opened s"
  by (simp_all add: checkGenerationHealth_def Let_def markGenerationAsFailed_frame fetch_frame
        split: fetched.splits option.splits)

text \<open>The branch of \<open>checkGenerationHealth\<close> for a generation that the server reports as
  \<open>processing\<close> while the socket is closed or absent: the failure report.\<close>

lemma checkGenerationHealth_stuck:
  assumes "truthy (currentGenerationId s)" and "isGenerating s"
    and "case ws s of None \<Rightarrow> True | Some w \<Rightarrow> ws_readyState w = CLOSED"
    and "ok h" and "ok r" and "json r = Some g" and "gen_status g = ''processing''"
  shows "checkGenerationHealth now (Resolved h) (Resolved r) marked s =
           markGenerationAsFailed now ''Connection lost - generation interrupted'' marked
             (fetch (GetHistoryById (the (currentGenerationId s))) (fetch GetHealth s))"
  using assms by (simp add: checkGenerationHealth_def Let_def fetch_def)

text \<open>
  \<^bold>\<open>C1\<close> (terminal stickiness) does not hold as stated. A generation is started, its
  socket opens, and \<open>done\<close> arrives: the status is \<open>Completed\<close>. An \<open>error\<close> event
  that arrives afterwards turns the status into \<open>Failed\<close>: \<open>handleGenerationError\<close> asks
  for nothing before it writes.
\<close>

theorem terminal_sticky_counterexample:
  "statusText (ws_onmessage 2 (Some (Done None None))
      (opens (startGeneration (Resolved \<lparr>ok = True, status = 200, json = Some (Some ''g1'')\<rparr>)
         ((constructor None None None)\<lparr>promptInput := ''print one''\<rparr>)))) = ''Completed''
   \<and> statusText (ws_onmessage 3 (Some (Error ''boom''))
        (ws_onmessage 2 (Some (Done None None))
          (opens (startGeneration (Resolved \<lparr>ok = True, status = 200, json = Some (Some ''g1'')\<rparr>)
             ((constructor None None None)\<lparr>promptInput := ''print one''\<rparr>))))) = ''Failed''"
  by (simp add: round_trip_start ws_onmessage_def handleGenerationComplete_def
        handleGenerationError_def small_defs)

text \<open>What is left out of the statement below: a failure report whose request was sent
  while the session was still generating, and which settles after \<open>done\<close>, is applied.
  The guard of \<open>markGenerationAsFailed\<close> stands before its \<open>await\<close> only.\<close>

lemma late_failure_report_applied:
  "markGenerationAsFailed_request ''Connection lost - generation interrupted''
      (opens (startGeneration (Resolved \<lparr>ok = True, status = 200, json = Some (Some ''g1'')\<rparr>)
         ((constructor None None None)\<lparr>promptInput := ''print one''\<rparr>)))
     = Some (fetch (PostFail ''g1'' ''Connection lost - generation interrupted'' [])
        (opens (startGeneration (Resolved \<lparr>ok = True, status = 200, json = Some (Some ''g1'')\<rparr>)
         ((constructor None None None)\<lparr>promptInput := ''print one''\<rparr>))))
   \<and> statusText (ws_onmessage 2 (Some (Done None None))
        (fetch (PostFail ''g1'' ''Connection lost - generation interrupted'' [])
          (opens (startGeneration (Resolved \<lparr>ok = True, status = 200, json = Some (Some ''g1'')\<rparr>)
            ((constructor None None None)\<lparr>promptInput := ''print one''\<rparr>))))) = ''Completed''
   \<and> statusText (markGenerationAsFailed_settled 4 ''Connection lost - generation interrupted''
        (Resolved \<lparr>ok = True, status = 200, json = Some ()\<rparr>)
        (ws_onmessage 2 (Some (Done None None))
          (fetch (PostFail ''g1'' ''Connection lost - generation interrupted'' [])
            (opens (startGeneration (Resolved \<lparr>ok = True, status = 200, json = Some (Some ''g1'')\<rparr>)
              ((constructor None None None)\<lparr>promptInput := ''print one''\<rparr>)))))) = ''Loaded: failed''"
  by (simp add: round_trip_start markGenerationAsFailed_request_def markGenerationAsFailed_settled_def
        ws_onmessage_def handleGenerationComplete_def displayGeneration_def renderOutput_def
        trim_def small_defs Let_def)

text \<open>
  \<^bold>\<open>C1\<close>, as the code has it. Once the controller is no longer generating, which is so
  in each of the states reached by \<open>done\<close>, \<open>error\<close> and a stop, a tick of the health
  monitor, a health check or a failure report that starts afterwards leaves the state as it
  is and sends nothing. A late \<open>error\<close> event is not ignored: it sets the status to
  \<open>Failed\<close> and shows a toast, and leaves every other field as it was, among them the
  buffer, the token count, the generation id and the stored snapshot.
\<close>

theorem terminal_sticky:
  assumes "\<not> isGenerating s"
  shows "healthTick now health loaded marked s = s
    \<and> checkGenerationHealth now health loaded marked s = s
    \<and> markGenerationAsFailed now msg marked s = s
    \<and> markGenerationAsFailed_request msg s = None
    \<and> statusText (ws_onmessage now (Some (Error msg)) s) = ''Failed''
    \<and> (ws_onmessage now (Some (Error msg)) s)\<lparr>statusText := statusText s, trace := trace s\<rparr> = s"
  using assms
  by (simp add: healthTick_def checkGenerationHealth_idle markGenerationAsFailed_idle
        markGenerationAsFailed_request_def ws_onmessage_def handleGenerationError_def small_defs)

theorem terminal_sticky_witness:
  "\<not> isGenerating (ws_onmessage 2 (Some (Done None None))
      (opens (startGeneration (Resolved \<lparr>ok = True, status = 200, json = Some (Some ''g1'')\<rparr>)
         ((constructor None None None)\<lparr>promptInput := ''print one''\<rparr>))))
   \<and> healthTick 5 (Rejected :: unit fetched) Rejected (Rejected :: unit fetched)
       (ws_onmessage 2 (Some (Done None None))
         (opens (startGeneration (Resolved \<lparr>ok = True, status = 200, json = Some (Some ''g1'')\<rparr>)
           ((constructor None None None)\<lparr>promptInput := ''print one''\<rparr>))))
     = ws_onmessage 2 (Some (Done None None))
         (opens (startGeneration (Resolved \<lparr>ok = True, status = 200, json = Some (Some ''g1'')\<rparr>)
           ((constructor None None None)\<lparr>promptInput := ''print one''\<rparr>)))"
proof -
  have idle: "\<not> isGenerating (ws_onmessage 2 (Some (Done None None))
      (opens (startGeneration (Resolved \<lparr>ok = True, status = 200, json = Some (Some ''g1'')\<rparr>)
         ((constructor None None None)\<lparr>promptInput := ''print one''\<rparr>))))"
    by (simp add: round_trip_start ws_onmessage_def handleGenerationComplete_def small_defs)
  show ?thesis
    using idle terminal_sticky [OF idle, where now = 5 and health = "Rejected :: unit fetched"
        and loaded = Rejected and marked = "Rejected :: unit fetched"]
    by simp
qed


subsection \<open>The health monitor and a closed channel\<close>

lemma streamed_closed:
  "closes (ws_onmessage 1 (Some (Token ''ab''))
        (opens (startGeneration (Resolved \<lparr>ok = True, status = 200, json = Some (Some ''g1'')\<rparr>)
         ((constructor None None None)\<lparr>promptInput := ''print one''\<rparr>)))) =
   \<lparr>ws = Some \<lparr>ws_generationId = Some ''g1'', ws_readyState = CLOSED\<rparr>,
    currentGenerationId = Some ''g1'', isGenerating = False, outputBuffer = ''ab'', tokenCount = 1,
    promptInput = ''print one'', statusText = ''Ready'', modelName = [],
    appState = None, lastGenerationId = None, selectedModel = None,
    trace = [Fetch (PostGenerate ''print one''), NewWebSocket (Some ''g1'')]\<rparr>"
  by (simp add: round_trip_start ws_onmessage_def renderOutput_def Let_def increment_def
        closes_def ws_onclose_def small_defs)

text \<open>
  \<^bold>\<open>C2\<close> (reconnection convergence) does not hold as stated. The session \<open>g1\<close> is
  started, its socket opens, a token arrives, and the socket closes. At the next tick the
  health probe succeeds, the server reports \<open>processing\<close>, and a failure report would be
  accepted. The tick changes nothing: the socket is the closed one still, no second socket
  has been opened, no request has been sent.
\<close>

theorem health_tick_reopens_counterexample:
  "healthTick 9 (Resolved \<lparr>ok = True, status = 200, json = Some ()\<rparr>)
      (Resolved \<lparr>ok = True, status = 200, json = Some
         \<lparr>gen_id = Some ''g1'', gen_status = ''processing'', gen_output = Some ''ab'',
          gen_prompt = Some ''print one'', gen_error = None\<rparr>\<rparr>)
      (Resolved \<lparr>ok = True, status = 200, json = Some ()\<rparr>)
      (closes (ws_onmessage 1 (Some (Token ''ab''))
        (opens (startGeneration (Resolved \<lparr>ok = True, status = 200, json = Some (Some ''g1'')\<rparr>)
         ((constructor None None None)\<lparr>promptInput := ''print one''\<rparr>)))))
   = \<lparr>ws = Some \<lparr>ws_generationId = Some ''g1'', ws_readyState = CLOSED\<rparr>,
    currentGenerationId = Some ''g1'', isGenerating = False, outputBuffer = ''ab'', tokenCount = 1,
    promptInput = ''print one'', statusText = ''Ready'', modelName = [],
    appState = None, lastGenerationId = None, selectedModel = None,
    trace = [Fetch (PostGenerate ''print one''), NewWebSocket (Some ''g1'')]\<rparr>"
  by (simp add: streamed_closed healthTick_def)

text \<open>
  \<^bold>\<open>C2\<close>, as the code has it. A tick of the health monitor never opens a channel: it
  leaves \<open>ws\<close> as it is, and the channels opened so far, whatever its requests answer.
  When the channel of a session closes, the close event ends the generating state and
  sets the status to \<open>Ready\<close>; the next tick then does nothing, whatever the server
  reports: it sends no request, opens no channel and does not fail the session.
\<close>

theorem health_tick_after_close:
  "ws (healthTick now health loaded marked s) = ws s
   \<and> opened (healthTick now health loaded marked s) = opened s
   \<and> \<not> isGenerating (closes s)
   \<and> statusText (closes s) = ''Ready''
   \<and> healthTick now health loaded marked (closes s) = closes s"
  by (simp add: healthTick_def checkGenerationHealth_frame closes_def ws_onclose_def small_defs)

theorem health_tick_after_close_witness:
  "statusText (closes (ws_onmessage 1 (Some (Token ''ab''))
        (opens (startGeneration (Resolved \<lparr>ok = True, status = 200, json = Some (Some ''g1'')\<rparr>)
         ((constructor None None None)\<lparr>promptInput := ''print one''\<rparr>))))) = ''Ready''
   \<and> healthTick 9 (Resolved \<lparr>ok = True, status = 200, json = Some ()\<rparr>)
      (Resolved \<lparr>ok = True, status = 200, json = Some
         \<lparr>gen_id = Some ''g1'', gen_status = ''processing'', gen_output = Some ''ab'',
          gen_prompt = Some ''print one'', gen_error = None\<rparr>\<rparr>)
      (Resolved \<lparr>ok = True, status = 200, json = Some ()\<rparr>)
      (closes (ws_onmessage 1 (Some (Token ''ab''))
        (opens (startGeneration (Resolved \<lparr>ok = True, status = 200, json = Some (Some ''g1'')\<rparr>)
         ((constructor None None None)\<lparr>promptInput := ''print one''\<rparr>)))))
     = closes (ws_onmessage 1 (Some (Token ''ab''))
        (opens (startGeneration (Resolved \<lparr>ok = True, status = 200, json = Some (Some ''g1'')\<rparr>)
         ((constructor None None None)\<lparr>promptInput := ''print one''\<rparr>))))"
  using health_tick_after_close [where now = 9
      and health = "Resolved \<lparr>ok = True, status = 200, json = Some ()\<rparr>"
      and loaded = "Resolved \<lparr>ok = True, status = 200, json = Some
         \<lparr>gen_id = Some ''g1'', gen_status = ''processing'', gen_output = Some ''ab'',
          gen_prompt = Some ''print one'', gen_error = None\<rparr>\<rparr>"
      and marked = "Resolved \<lparr>ok = True, status = 200, json = Some ()\<rparr>"
      and s = "ws_onmessage 1 (Some (Token ''ab''))
        (opens (startGeneration (Resolved \<lparr>ok = True, status = 200, json = Some (Some ''g1'')\<rparr>)
         ((constructor None None None)\<lparr>promptInput := ''print one''\<rparr>)))"]
  by simp

subsection \<open>Validation of a start request\<close>

text \<open>What \<open>startGeneration\<close> does reject: a blank prompt, and a stored model name that
  is one of the three placeholder texts.\<close>

lemma startGeneration_blank_prompt:
  "trim (promptInput s) = [] \<Longrightarrow>
     startGeneration created s = showToast ''Please enter a prompt'' ''warning'' s"
  by (simp add: startGeneration_def)

lemma startGeneration_placeholder_model:
  assumes "trim (promptInput s) \<noteq> []"
    and "selectedModel s = Some m"
    and "m = ''Select a model'' \<or> m = ''No models available'' \<or> m = ''Error loading models''"
  shows "startGeneration created s =
           fetch GetModels (showToast ''Please select a model before generating code'' ''error'' s)"
  using assms by (auto simp add: startGeneration_def getCurrentModel_def Let_def)

text \<open>
  \<^bold>\<open>C6\<close> (validation before any state change) fails where no model is selected. On a
  fresh page whose storage holds no \<open>selectedModel\<close>, the server lists two models, neither
  of them the default \<open>qwen2.5:14b\<close>: \<open>initializeModelSelection\<close> selects none, writes
  \<open>Select a model\<close> into the element \<open>modelName\<close> and asks the user to select one. A
  start request with the prompt \<open>hello\<close> is then not rejected: \<open>getCurrentModel\<close> answers
  the default, which is none of the placeholders, so the controller starts generating,
  creates the job and opens the channel.
\<close>

theorem start_without_model:
  "initializeModelSelection
      (Resolved \<lparr>ok = True, status = 200, json = Some (Models [''llama3'', ''mistral''])\<rparr>)
      (constructor None None None)
   = \<lparr>ws = None, currentGenerationId = None, isGenerating = False, outputBuffer = [],
      tokenCount = 0, promptInput = [], statusText = [], modelName = ''Select a model'',
      appState = None, lastGenerationId = None, selectedModel = None,
      trace = [Fetch GetModels, Toast ''Please select a model to continue'' ''warning'']\<rparr>
   \<and> startGeneration (Resolved \<lparr>ok = True, status = 200, json = Some (Some ''g1'')\<rparr>)
      \<lparr>ws = None, currentGenerationId = None, isGenerating = False, outputBuffer = [],
       tokenCount = 0, promptInput = ''hello'', statusText = [], modelName = ''Select a model'',
       appState = None, lastGenerationId = None, selectedModel = None,
       trace = [Fetch GetModels, Toast ''Please select a model to continue'' ''warning'']\<rparr>
   = \<lparr>ws = Some \<lparr>ws_generationId = Some ''g1'', ws_readyState = CONNECTING\<rparr>,
      currentGenerationId = Some ''g1'', isGenerating = True, outputBuffer = [],
      tokenCount = 0, promptInput = ''hello'', statusText = ''Generating...'',
      modelName = ''Select a model'', appState = None, lastGenerationId = None,
      selectedModel = None,
      trace = [Fetch GetModels, Toast ''Please select a model to continue'' ''warning'',
               Fetch (PostGenerate ''hello''), NewWebSocket (Some ''g1'')]\<rparr>"
  by (simp add: initializeModelSelection_def startGeneration_def constructor_def
        getCurrentModel_def connectWebSocket_def trim_def isWhiteSpace_def small_defs Let_def)

end
